theory Spec2Isabelle
  imports Main
begin

section \<open>The controllable latent worker (buildbot/test/fake/latent.py)\<close>

text \<open>
  The file holds two classes that share one mutable object: \<^verbatim>\<open>LatentController\<close>
  and \<^verbatim>\<open>ControllableLatentWorker\<close>, whose every method reads and writes the
  controller's fields. The controller is a record, each method a function that takes the
  record and returns the outcome together with the record as the method leaves it. A
  raised exception (or the failed Deferred of an \<^verbatim>\<open>async_to_deferred\<close> method)
  is \<open>Inl\<close> of the error; the record returned beside it holds the writes made before
  the raise, as in Python. Every \<^verbatim>\<open>await\<close> is taken to complete at once.

  What the file imports is outside: the base class \<^verbatim>\<open>AbstractLatentWorker\<close>, the
  mixin's \<^verbatim>\<open>disconnect_worker\<close>, \<^verbatim>\<open>disconnect_master_side_worker\<close> and the
  remote worker's service calls are taken to return without touching a field of the
  controller. The configuration methods of the worker (\<^verbatim>\<open>checkConfig\<close>,
  \<^verbatim>\<open>reconfigService\<close>, the password counter) and \<^verbatim>\<open>patchBot\<close> touch none
  of them either and are left out.
\<close>

subsection \<open>Data\<close>

datatype States = STOPPED | STARTING | STARTED | STOPPING

datatype error = AssertionError | AttributeError | TypeError | SkipTest | AlreadyCalledError

text \<open>
  The configured \<^verbatim>\<open>kind\<close> of a controller: \<^verbatim>\<open>None\<close>, a plain string, or a
  renderable object that is evaluated against a build. A rendered kind is a
  \<open>string option\<close>, \<open>None\<close> being Python's \<^verbatim>\<open>None\<close>.
\<close>

datatype 'b pykind = KNone | KStr string | KRenderable "'b \<Rightarrow> string option"

text \<open>
  What the slot \<^verbatim>\<open>_started_kind_deferred\<close> holds: the Deferred that
  \<^verbatim>\<open>build.render(self.kind)\<close> returned, with the value it fires with, or the
  configured kind itself (\<open>Raw KNone\<close> is the slot holding \<^verbatim>\<open>None\<close>).
\<close>

datatype 'b slot = Raw "'b pykind" | Deferred "string option"

text \<open>
  The \<^verbatim>\<open>result\<close> handed to \<^verbatim>\<open>start_instance\<close> and \<^verbatim>\<open>stop_instance\<close> of
  the controller: a boolean, or a failure with its message.
\<close>

datatype pyresult = PyBool bool | PyFailure string

text \<open>
  What the worker's \<^verbatim>\<open>start_instance\<close> and \<^verbatim>\<open>stop_instance\<close> hand to their
  caller: a value that is already there, or the Deferred (by its number in the store
  \<open>deferreds\<close>) the caller waits on.
\<close>

datatype future = Succeeded pyresult | Pending nat

text \<open>
  The fields of \<^verbatim>\<open>LatentController\<close> that the methods below use, and four more
  that stand for the world around it:
  \<^item> \<open>deferreds\<close> and \<open>deferreds_made\<close>: the Deferred objects created so far, each
    with the result it was fired with (\<open>None\<close> while nobody has called it back);
  \<^item> \<open>RemoteWorker_installed\<close>: whether the module-level import of
    \<^verbatim>\<open>buildbot_worker\<close> succeeded (\<^verbatim>\<open>RemoteWorker is not None\<close>);
  \<^item> \<open>case_mktemp\<close>: how many directories \<^verbatim>\<open>self.case.mktemp()\<close> has handed out;
    a remote worker session is identified by the directory it was created in;
  \<^item> \<open>transitions\<close>: a log of every assignment to \<open>state\<close>, as the pair of the
    state before and the state assigned. No method reads it.
\<close>

record 'b controller =
  has_crashed :: bool
  remote_worker :: "nat option"
  state :: States
  auto_stop_flag :: bool
  auto_start_flag :: bool
  auto_connect_worker :: bool
  auto_disconnect_worker :: bool
  start_deferred :: "nat option"
  stop_deferred :: "nat option"
  kind :: "'b pykind"
  started_kind :: "string option"
  started_kind_deferred :: "'b slot"
  deferreds :: "nat \<Rightarrow> pyresult option"
  deferreds_made :: nat
  RemoteWorker_installed :: bool
  case_mktemp :: nat
  transitions :: "(States \<times> States) list"

type_synonym ('a, 'b) outcome = "(error + 'a) \<times> 'b controller"

subsection \<open>What the file uses and does not define\<close>

text \<open>
  Modelled from the spec: \<^verbatim>\<open>build.render\<close> (buildbot.process.properties) is not in
  the file. The spec describes the kind as a static token or something evaluated against
  the build, by a pure function of the worker's configuration and the build.
\<close>

fun render :: "'b \<Rightarrow> 'b pykind \<Rightarrow> string option" where
  "render b KNone = None"
| "render b (KStr s) = Some s"
| "render b (KRenderable f) = f b"

text \<open>Python's truth value of what the slot holds: an object is true unless it is
  \<^verbatim>\<open>None\<close> or the empty string.\<close>

fun truthy :: "'b slot \<Rightarrow> bool" where
  "truthy (Raw KNone) = False"
| "truthy (Raw (KStr s)) = (s \<noteq> [])"
| "truthy (Raw (KRenderable f)) = True"
| "truthy (Deferred v) = True"

text \<open>\<^verbatim>\<open>await x\<close>: the value of a Deferred; anything else is not awaitable.\<close>

fun await :: "'b slot \<Rightarrow> error + string option" where
  "await (Deferred v) = Inr v"
| "await (Raw k) = Inl TypeError"

text \<open>\<^verbatim>\<open>defer.Deferred()\<close>: a new Deferred that nobody has fired.\<close>

definition new_deferred :: "'b controller \<Rightarrow> nat \<times> 'b controller" where
  "new_deferred c =
     (deferreds_made c,
      c\<lparr>deferreds := (deferreds c)(deferreds_made c := None),
        deferreds_made := Suc (deferreds_made c)\<rparr>)"

text \<open>\<^verbatim>\<open>d.callback(result)\<close>, where \<open>d\<close> was read from a slot that may hold
  \<^verbatim>\<open>None\<close>.\<close>

definition callback :: "nat option \<Rightarrow> pyresult \<Rightarrow> 'b controller \<Rightarrow> (unit, 'b) outcome" where
  "callback d result c =
     (case d of
        None \<Rightarrow> (Inl AttributeError, c)
      | Some i \<Rightarrow>
          (case deferreds c i of
             None \<Rightarrow> (Inr (), c\<lparr>deferreds := (deferreds c)(i \<mapsto> result)\<rparr>)
           | Some r \<Rightarrow> (Inl AlreadyCalledError, c)))"

text \<open>An assignment \<^verbatim>\<open>self.state = s\<close>, logged.\<close>

definition set_state :: "States \<Rightarrow> 'b controller \<Rightarrow> 'b controller" where
  "set_state s c = c\<lparr>state := s, transitions := transitions c @ [(state c, s)]\<rparr>"

subsection \<open>LatentController\<close>

definition init :: "'b pykind \<Rightarrow> bool \<Rightarrow> 'b controller" where
  "init k installed =
     \<lparr>has_crashed = False, remote_worker = None, state = STOPPED,
      auto_stop_flag = False, auto_start_flag = False,
      auto_connect_worker = True, auto_disconnect_worker = True,
      start_deferred = None, stop_deferred = None,
      kind = k, started_kind = None, started_kind_deferred = Raw KNone,
      deferreds = (\<lambda>i. None), deferreds_made = 0,
      RemoteWorker_installed = installed, case_mktemp = 0, transitions = []\<rparr>"

definition connect_worker :: "'b controller \<Rightarrow> (unit, 'b) outcome" where
  "connect_worker c =
     (if remote_worker c \<noteq> None then (Inr (), c)
      else if \<not> RemoteWorker_installed c then (Inl SkipTest, c)
      else (Inr (), c\<lparr>case_mktemp := Suc (case_mktemp c),
                       remote_worker := Some (case_mktemp c)\<rparr>))"

definition disconnect_worker :: "'b controller \<Rightarrow> (unit, 'b) outcome" where
  "disconnect_worker c =
     (if remote_worker c = None then (Inr (), c)
      else (Inr (), c\<lparr>remote_worker := None\<rparr>))"

definition do_start_instance :: "'b controller \<Rightarrow> pyresult \<Rightarrow> (unit, 'b) outcome" where
  "do_start_instance c result =
     (if state c \<noteq> STARTING then (Inl AssertionError, c)
      else let c1 = set_state STARTED c in
        if auto_connect_worker c1 \<and> result = PyBool True then connect_worker c1
        else (Inr (), c1))"

definition start_instance :: "'b controller \<Rightarrow> pyresult \<Rightarrow> (unit, 'b) outcome" where
  "start_instance c result =
     (case do_start_instance c result of
        (Inl e, c1) \<Rightarrow> (Inl e, c1)
      | (Inr u, c1) \<Rightarrow>
          let d = start_deferred c1; c2 = c1\<lparr>start_deferred := None\<rparr>
          in callback d result c2)"

text \<open>\<^verbatim>\<open>auto_start\<close> is a plain method: it does not wait for the Deferred of
  \<^verbatim>\<open>start_instance(True)\<close>, so a failure of that call stays in the Deferred.\<close>

definition auto_start :: "'b controller \<Rightarrow> bool \<Rightarrow> 'b controller" where
  "auto_start c result =
     (let c1 = c\<lparr>auto_start_flag := result\<rparr> in
      if auto_start_flag c1 \<and> state c1 = STARTING
      then snd (start_instance c1 (PyBool True))
      else c1)"

definition do_stop_instance :: "'b controller \<Rightarrow> (unit, 'b) outcome" where
  "do_stop_instance c =
     (if state c \<noteq> STOPPING then (Inl AssertionError, c)
      else let c1 = (set_state STOPPED c)\<lparr>started_kind := None\<rparr> in
        if auto_disconnect_worker c1 then disconnect_worker c1
        else (Inr (), c1))"

definition stop_instance :: "'b controller \<Rightarrow> pyresult \<Rightarrow> (unit, 'b) outcome" where
  "stop_instance c result =
     (case do_stop_instance c of
        (Inl e, c1) \<Rightarrow> (Inl e, c1)
      | (Inr u, c1) \<Rightarrow>
          let d = stop_deferred c1; c2 = c1\<lparr>stop_deferred := None\<rparr>
          in callback d result c2)"

definition auto_stop :: "'b controller \<Rightarrow> bool \<Rightarrow> (unit, 'b) outcome" where
  "auto_stop c result =
     (let c1 = c\<lparr>auto_stop_flag := result\<rparr> in
      if auto_stop_flag c1 \<and> state c1 = STOPPING
      then stop_instance c1 (PyBool True)
      else (Inr (), c1))"

definition setup_kind :: "'b controller \<Rightarrow> 'b option \<Rightarrow> 'b controller" where
  "setup_kind c build =
     (case build of
        Some b \<Rightarrow> c\<lparr>started_kind_deferred := Deferred (render b (kind c))\<rparr>
      | None \<Rightarrow> c\<lparr>started_kind_deferred := Raw (kind c)\<rparr>)"

definition get_started_kind :: "'b controller \<Rightarrow> (string option, 'b) outcome" where
  "get_started_kind c =
     (if truthy (started_kind_deferred c)
      then (case await (started_kind_deferred c) of
              Inl e \<Rightarrow> (Inl e, c)
            | Inr v \<Rightarrow>
                (Inr v, c\<lparr>started_kind := v, started_kind_deferred := Raw KNone\<rparr>))
      else (Inr (started_kind c), c))"

subsection \<open>ControllableLatentWorker\<close>

definition isCompatibleWithBuild :: "'b controller \<Rightarrow> 'b \<Rightarrow> (bool, 'b) outcome" where
  "isCompatibleWithBuild c build_props =
     (if state c = STOPPED then (Inr True, c)
      else let requested_kind = render build_props (kind c) in
        case get_started_kind c of
          (Inl e, c1) \<Rightarrow> (Inl e, c1)
        | (Inr curr_kind, c1) \<Rightarrow> (Inr (requested_kind = curr_kind), c1))"

text \<open>The worker's \<^verbatim>\<open>start_instance(build)\<close>. With \<open>auto_start_flag\<close> it calls
  \<^verbatim>\<open>do_start_instance(True)\<close> without waiting for its Deferred, and returns
  \<^verbatim>\<open>defer.succeed(True)\<close> whatever became of that call.\<close>

definition worker_start_instance :: "'b controller \<Rightarrow> 'b option \<Rightarrow> (future, 'b) outcome" where
  "worker_start_instance c build =
     (let c1 = setup_kind c build in
      if state c1 \<noteq> STOPPED then (Inl AssertionError, c1)
      else let c2 = set_state STARTING c1 in
        if auto_start_flag c2
        then (Inr (Succeeded (PyBool True)), snd (do_start_instance c2 (PyBool True)))
        else let (d, c3) = new_deferred c2
             in (Inr (Pending d), c3\<lparr>start_deferred := Some d\<rparr>))"

text \<open>The worker's \<^verbatim>\<open>stop_instance(fast)\<close>. Without \<open>auto_stop_flag\<close> its own
  Deferred fires with whatever \<^verbatim>\<open>_stop_deferred\<close> fires with: the caller is
  handed that one.\<close>

definition worker_stop_instance :: "'b controller \<Rightarrow> bool \<Rightarrow> (future, 'b) outcome" where
  "worker_stop_instance c fast =
     (if state c \<noteq> STARTED then (Inl AssertionError, c)
      else let c1 = set_state STOPPING c in
        if auto_stop_flag c1
        then (case do_stop_instance c1 of
                (Inl e, c2) \<Rightarrow> (Inl e, c2)
              | (Inr u, c2) \<Rightarrow> (Inr (Succeeded (PyBool True)), c2))
        else let (d, c3) = new_deferred c1
             in (Inr (Pending d), c3\<lparr>stop_deferred := Some d\<rparr>))"

definition check_instance :: "'b controller \<Rightarrow> bool \<times> string" where
  "check_instance c = (\<not> has_crashed c, '''')"

subsection \<open>Every call a test or the master can make\<close>

datatype 'b call =
    Auto_start bool
  | Start_instance pyresult
  | Do_start_instance pyresult
  | Auto_stop bool
  | Stop_instance pyresult
  | Do_stop_instance
  | Connect_worker
  | Disconnect_worker
  | Setup_kind "'b option"
  | Get_started_kind
  | IsCompatibleWithBuild 'b
  | Worker_start_instance "'b option"
  | Worker_stop_instance bool
  | Check_instance

text \<open>The controller as a call leaves it, whether the call returned or raised.\<close>

fun exec :: "'b call \<Rightarrow> 'b controller \<Rightarrow> 'b controller" where
  "exec (Auto_start r) c = auto_start c r"
| "exec (Start_instance r) c = snd (start_instance c r)"
| "exec (Do_start_instance r) c = snd (do_start_instance c r)"
| "exec (Auto_stop r) c = snd (auto_stop c r)"
| "exec (Stop_instance r) c = snd (stop_instance c r)"
| "exec Do_stop_instance c = snd (do_stop_instance c)"
| "exec Connect_worker c = snd (connect_worker c)"
| "exec Disconnect_worker c = snd (disconnect_worker c)"
| "exec (Setup_kind b) c = setup_kind c b"
| "exec Get_started_kind c = snd (get_started_kind c)"
| "exec (IsCompatibleWithBuild b) c = snd (isCompatibleWithBuild c b)"
| "exec (Worker_start_instance b) c = snd (worker_start_instance c b)"
| "exec (Worker_stop_instance f) c = snd (worker_stop_instance c f)"
| "exec Check_instance c = c"

text \<open>A sequence of calls, from left to right.\<close>

definition run :: "'b call list \<Rightarrow> 'b controller \<Rightarrow> 'b controller" where
  "run ks c = fold exec ks c"

subsection \<open>The words of the specification\<close>

text \<open>
  The state machine of section 4.3 of the specification, as the claim on the transitions
  lists it: the four edges of the cycle.
\<close>

definition spec_edges :: "(States \<times> States) list" where
  "spec_edges =
     [(STOPPED, STARTING), (STARTING, STARTED), (STARTED, STOPPING), (STOPPING, STOPPED)]"

text \<open>\<open>follows s ts s'\<close>: the logged assignments \<open>ts\<close> are a path of the state
  machine from \<open>s\<close> to \<open>s'\<close>.\<close>

fun follows :: "States \<Rightarrow> (States \<times> States) list \<Rightarrow> States \<Rightarrow> bool" where
  "follows s [] s' = (s = s')"
| "follows s ((a, b) # ts) s' = (a = s \<and> (a, b) \<in> set spec_edges \<and> follows b ts s')"

text \<open>The assignments to \<open>state\<close> that one call makes.\<close>

definition performed :: "'b call \<Rightarrow> 'b controller \<Rightarrow> (States \<times> States) list" where
  "performed k c = drop (length (transitions c)) (transitions (exec k c))"

text \<open>
  The current kind of the specification: the kind that \<^verbatim>\<open>get_started_kind\<close>
  answers with, which is the value of the Deferred in the slot while one is there, and
  the stored \<open>started_kind\<close> otherwise. It is available unless the slot holds a true
  object that cannot be awaited (the configured kind itself, after a start without a
  build).
\<close>

fun awaitable :: "'b slot \<Rightarrow> bool" where
  "awaitable (Deferred v) = True"
| "awaitable (Raw k) = False"

definition kind_available :: "'b controller \<Rightarrow> bool" where
  "kind_available c =
     (if truthy (started_kind_deferred c) then awaitable (started_kind_deferred c) else True)"

definition current_kind :: "'b controller \<Rightarrow> string option" where
  "current_kind c =
     (case started_kind_deferred c of Deferred v \<Rightarrow> v | Raw k \<Rightarrow> started_kind c)"

text \<open>The calls that read the started kind.\<close>

fun evaluates_kind :: "'b call \<Rightarrow> bool" where
  "evaluates_kind Get_started_kind = True"
| "evaluates_kind (IsCompatibleWithBuild b) = True"
| "evaluates_kind k = False"

text \<open>
  The waiters: a Deferred in \<open>start_deferred\<close> or \<open>stop_deferred\<close> was created and
  nobody has fired it, the two slots never hold the same Deferred, and a controller that
  is STARTING (STOPPING) has a Deferred in \<open>start_deferred\<close> (\<open>stop_deferred\<close>).
\<close>

definition unfired :: "'b controller \<Rightarrow> nat option \<Rightarrow> bool" where
  "unfired c d =
     (case d of None \<Rightarrow> True | Some i \<Rightarrow> deferreds c i = None \<and> i < deferreds_made c)"

definition waiters_ok :: "'b controller \<Rightarrow> bool" where
  "waiters_ok c =
     (unfired c (start_deferred c) \<and> unfired c (stop_deferred c) \<and>
      (start_deferred c = None \<or> start_deferred c \<noteq> stop_deferred c) \<and>
      (if state c = STARTING then start_deferred c \<noteq> None else True) \<and>
      (if state c = STOPPING then stop_deferred c \<noteq> None else True))"

section \<open>Properties\<close>

subsection \<open>Every call extends the log by a path of the state machine\<close>

lemmas ops =
  worker_start_instance_def worker_stop_instance_def start_instance_def
  do_start_instance_def stop_instance_def do_stop_instance_def auto_start_def
  auto_stop_def connect_worker_def disconnect_worker_def setup_kind_def
  get_started_kind_def isCompatibleWithBuild_def set_state_def new_deferred_def
  callback_def Let_def

lemmas splits = option.splits sum.splits prod.splits if_splits

lemma follows_append: "follows s xs m \<Longrightarrow> follows m ys s' \<Longrightarrow> follows s (xs @ ys) s'"
  by (induction xs arbitrary: s) auto

lemma follows_edges: "follows s ts s' \<Longrightarrow> set ts \<subseteq> set spec_edges"
  by (induction s ts s' rule: follows.induct) auto

lemma exec_transitions:
  "\<exists>new. transitions (exec k c) = transitions c @ new \<and>
         follows (state c) new (state (exec k c))"
  by (cases k) (auto simp: ops spec_edges_def split: splits)

lemma performed_follows:
  "transitions (exec k c) = transitions c @ performed k c \<and>
   follows (state c) (performed k c) (state (exec k c))"
  using exec_transitions [of k c] by (auto simp: performed_def)

lemma run_follows:
  "follows s0 (transitions c) (state c) \<Longrightarrow>
   follows s0 (transitions (run ks c)) (state (run ks c))"
proof (induction ks arbitrary: c)
  case Nil
  then show ?case by (simp add: run_def)
next
  case (Cons k ks)
  have "follows s0 (transitions (exec k c)) (state (exec k c))"
    using Cons.prems performed_follows [of k c] follows_append by metis
  then show ?case using Cons.IH [of "exec k c"] by (simp add: run_def)
qed

subsection \<open>The waiters of reachable controllers\<close>

lemma waiters_ok_init: "waiters_ok (init k i)"
  by (simp add: waiters_ok_def unfired_def init_def)

lemma waiters_ok_exec: "waiters_ok c \<Longrightarrow> waiters_ok (exec k c)"
  by (cases k) (auto simp: ops waiters_ok_def unfired_def split: splits)

lemma waiters_ok_run: "waiters_ok c \<Longrightarrow> waiters_ok (run ks c)"
  by (induction ks arbitrary: c) (auto simp: run_def waiters_ok_exec)

subsection \<open>The started kind\<close>

lemma get_started_kind_value:
  "kind_available c \<Longrightarrow> fst (get_started_kind c) = Inr (current_kind c)"
  by (cases "started_kind_deferred c")
     (auto simp: get_started_kind_def current_kind_def kind_available_def)

lemma isCompatible_compares:
  "state c \<noteq> STOPPED \<Longrightarrow> kind_available c \<Longrightarrow>
   fst (isCompatibleWithBuild c b) = Inr (render b (kind c) = current_kind c)"
  by (cases "started_kind_deferred c")
     (auto simp: isCompatibleWithBuild_def get_started_kind_def current_kind_def
        kind_available_def)

subsection \<open>The four guarded assignments to the state\<close>

lemma worker_start_instance_asserts:
  "state c \<noteq> STOPPED \<longrightarrow>
     fst (worker_start_instance c b) = Inl AssertionError \<and>
     performed (Worker_start_instance b) c = []"
  by (auto simp: performed_def ops split: splits)

lemma worker_start_instance_edge:
  "state c = STOPPED \<longrightarrow>
     performed (Worker_start_instance b) c =
       (STOPPED, STARTING) # (if auto_start_flag c then [(STARTING, STARTED)] else [])"
  by (auto simp: performed_def ops split: splits)

lemma start_instance_asserts:
  "state c \<noteq> STARTING \<longrightarrow>
     fst (start_instance c r) = Inl AssertionError \<and>
     fst (do_start_instance c r) = Inl AssertionError \<and>
     performed (Start_instance r) c = [] \<and> performed (Do_start_instance r) c = []"
  by (auto simp: performed_def ops split: splits)

lemma start_instance_edge:
  "state c = STARTING \<longrightarrow>
     performed (Start_instance r) c = [(STARTING, STARTED)] \<and>
     performed (Do_start_instance r) c = [(STARTING, STARTED)]"
  by (auto simp: performed_def ops split: splits)

lemma worker_stop_instance_asserts:
  "state c \<noteq> STARTED \<longrightarrow>
     fst (worker_stop_instance c fast) = Inl AssertionError \<and>
     performed (Worker_stop_instance fast) c = []"
  by (auto simp: performed_def ops split: splits)

lemma worker_stop_instance_edge:
  "state c = STARTED \<longrightarrow>
     performed (Worker_stop_instance fast) c =
       (STARTED, STOPPING) # (if auto_stop_flag c then [(STOPPING, STOPPED)] else [])"
  by (auto simp: performed_def ops split: splits)

lemma stop_instance_asserts:
  "state c \<noteq> STOPPING \<longrightarrow>
     fst (stop_instance c r) = Inl AssertionError \<and>
     fst (do_stop_instance c) = Inl AssertionError \<and>
     performed (Stop_instance r) c = [] \<and> performed Do_stop_instance c = []"
  by (auto simp: performed_def ops split: splits)

lemma stop_instance_edge:
  "state c = STOPPING \<longrightarrow>
     performed (Stop_instance r) c = [(STOPPING, STOPPED)] \<and>
     performed Do_stop_instance c = [(STOPPING, STOPPED)]"
  by (auto simp: performed_def ops split: splits)

lemma init_follows: "follows STOPPED (transitions (init kd inst)) (state (init kd inst))"
  by (simp add: init_def)

text \<open>
  Claim C1. Whatever call is made on whatever controller, the assignments to the state
  that the call makes are a path of the four-edge state machine from the state before
  the call to the state after it, so none of them is another edge, and STOPPING to
  STARTING in particular is never assigned; the log of a controller reached from
  \<open>init\<close> by any calls is such a path from STOPPED. The worker's
  \<^verbatim>\<open>start_instance\<close> fails its assertion and assigns nothing unless the state is
  STOPPED, where it assigns STARTING (and, with \<open>auto_start_flag\<close>, resolves the start
  at once); resolving a start fails its assertion unless the state is STARTING, where it
  assigns STARTED; the worker's \<^verbatim>\<open>stop_instance\<close> fails its assertion unless the
  state is STARTED, where it assigns STOPPING (and, with \<open>auto_stop_flag\<close>, resolves
  the stop at once); resolving a stop fails its assertion unless the state is STOPPING,
  where it assigns STOPPED.
\<close>

theorem transitions_follow_state_machine:
  "follows (state c) (performed k c) (state (exec k c)) \<and>
   transitions (exec k c) = transitions c @ performed k c \<and>
   set (performed k c) \<subseteq> set spec_edges \<and>
   (STOPPING, STARTING) \<notin> set (performed k c) \<and>
   follows STOPPED (transitions (run ks (init kd inst))) (state (run ks (init kd inst))) \<and>
   (state c \<noteq> STOPPED \<longrightarrow>
      fst (worker_start_instance c b) = Inl AssertionError \<and>
      performed (Worker_start_instance b) c = []) \<and>
   (state c = STOPPED \<longrightarrow>
      performed (Worker_start_instance b) c =
        (STOPPED, STARTING) # (if auto_start_flag c then [(STARTING, STARTED)] else [])) \<and>
   (state c \<noteq> STARTING \<longrightarrow>
      fst (start_instance c r) = Inl AssertionError \<and>
      fst (do_start_instance c r) = Inl AssertionError \<and>
      performed (Start_instance r) c = [] \<and> performed (Do_start_instance r) c = []) \<and>
   (state c = STARTING \<longrightarrow>
      performed (Start_instance r) c = [(STARTING, STARTED)] \<and>
      performed (Do_start_instance r) c = [(STARTING, STARTED)]) \<and>
   (state c \<noteq> STARTED \<longrightarrow>
      fst (worker_stop_instance c fast) = Inl AssertionError \<and>
      performed (Worker_stop_instance fast) c = []) \<and>
   (state c = STARTED \<longrightarrow>
      performed (Worker_stop_instance fast) c =
        (STARTED, STOPPING) # (if auto_stop_flag c then [(STOPPING, STOPPED)] else [])) \<and>
   (state c \<noteq> STOPPING \<longrightarrow>
      fst (stop_instance c r) = Inl AssertionError \<and>
      fst (do_stop_instance c) = Inl AssertionError \<and>
      performed (Stop_instance r) c = [] \<and> performed Do_stop_instance c = []) \<and>
   (state c = STOPPING \<longrightarrow>
      performed (Stop_instance r) c = [(STOPPING, STOPPED)] \<and>
      performed Do_stop_instance c = [(STOPPING, STOPPED)])"
proof -
  have path: "follows (state c) (performed k c) (state (exec k c))"
    and log: "transitions (exec k c) = transitions c @ performed k c"
    using performed_follows [of k c] by simp_all
  have edges: "set (performed k c) \<subseteq> set spec_edges"
    using path by (rule follows_edges)
  have no_restart: "(STOPPING, STARTING) \<notin> set (performed k c)"
    using edges by (auto simp: spec_edges_def)
  have reach: "follows STOPPED (transitions (run ks (init kd inst))) (state (run ks (init kd inst)))"
    using init_follows by (rule run_follows)
  show ?thesis
    by (intro conjI)
       (rule path log edges no_restart reach
          worker_start_instance_asserts worker_start_instance_edge
          start_instance_asserts start_instance_edge
          worker_stop_instance_asserts worker_stop_instance_edge
          stop_instance_asserts stop_instance_edge)+
qed

theorem transitions_follow_state_machine_witness:
  "state (init (KStr ''a'') True :: unit controller) = STOPPED \<and>
   performed (Worker_start_instance (Some ())) (init (KStr ''a'') True) = [(STOPPED, STARTING)] \<and>
   transitions (run [Worker_start_instance (Some ()), Start_instance (PyBool True),
                  Worker_stop_instance False, Stop_instance (PyBool True)] (init (KStr ''a'') True))
     = [(STOPPED, STARTING), (STARTING, STARTED), (STARTED, STOPPING), (STOPPING, STOPPED)] \<and>
   follows STOPPED
     (transitions (run [Worker_start_instance (Some ()), Start_instance (PyBool True),
                  Worker_stop_instance False, Stop_instance (PyBool True)] (init (KStr ''a'') True)))
     STOPPED"
proof -
  let ?c = "init (KStr ''a'') True :: unit controller"
  let ?ks = "[Worker_start_instance (Some ()), Start_instance (PyBool True),
              Worker_stop_instance False, Stop_instance (PyBool True)]"
  note t = transitions_follow_state_machine
    [of ?c "Worker_start_instance (Some ())" ?ks "KStr ''a''" True "Some ()" "PyBool True" False]
  have stopped: "state ?c = STOPPED"
    by (simp add: init_def)
  have flag: "\<not> auto_start_flag ?c"
    by (simp add: init_def)
  from t have "state ?c = STOPPED \<longrightarrow>
      performed (Worker_start_instance (Some ())) ?c =
        (STOPPED, STARTING) # (if auto_start_flag ?c then [(STARTING, STARTED)] else [])"
    by (elim conjE)
  with stopped flag
  have first: "performed (Worker_start_instance (Some ())) ?c = [(STOPPED, STARTING)]"
    by simp
  have log: "transitions (run ?ks ?c) =
      [(STOPPED, STARTING), (STARTING, STARTED), (STARTED, STOPPING), (STOPPING, STOPPED)]"
    by (simp add: init_def run_def ops)
  have final: "state (run ?ks ?c) = STOPPED"
    by (simp add: init_def run_def ops)
  from t have "follows STOPPED (transitions (run ?ks ?c)) (state (run ?ks ?c))"
    by (elim conjE)
  with final have cycle: "follows STOPPED (transitions (run ?ks ?c)) STOPPED"
    by simp
  from stopped first log cycle show ?thesis
    by (intro conjI)
qed

subsection \<open>Resolving a start and resolving a stop\<close>

lemma start_instance_state:
  "state c = STARTING \<Longrightarrow>
   state (snd (start_instance c r)) = STARTED \<and>
   started_kind (snd (start_instance c r)) = started_kind c \<and>
   started_kind_deferred (snd (start_instance c r)) = started_kind_deferred c"
  by (auto simp: ops split: splits)

lemma start_instance_delivers:
  "state c = STARTING \<Longrightarrow> r \<noteq> PyBool True \<Longrightarrow> start_deferred c = Some d \<Longrightarrow>
   deferreds c d = None \<Longrightarrow>
   fst (start_instance c r) = Inr () \<and> deferreds (snd (start_instance c r)) d = Some r \<and>
   start_deferred (snd (start_instance c r)) = None"
  by (auto simp: ops split: splits)

lemma waiting_start:
  "waiters_ok c \<Longrightarrow> state c = STARTING \<Longrightarrow>
   \<exists>d. start_deferred c = Some d \<and> deferreds c d = None"
  by (auto simp: waiters_ok_def unfired_def split: splits)


lemma reachable_waiters_ok: "waiters_ok (run ks (init kd inst))"
  using waiters_ok_init by (rule waiters_ok_run)

text \<open>
  A worker started with kind \<open>a\<close> whose start then resolves with a failure: the state is
  STARTED, not STOPPED, and the stored kind is still \<open>a\<close>.
\<close>

theorem failed_start_not_STOPPED_counterexample:
  "state (run [Worker_start_instance (Some ()), Get_started_kind] (init (KStr ''a'') True)) = STARTING \<and>
   started_kind (run [Worker_start_instance (Some ()), Get_started_kind] (init (KStr ''a'') True)) = Some ''a'' \<and>
   start_deferred (run [Worker_start_instance (Some ()), Get_started_kind] (init (KStr ''a'') True)) = Some 0 \<and>
   state (snd (start_instance
      (run [Worker_start_instance (Some ()), Get_started_kind] (init (KStr ''a'') True))
      (PyFailure ''boom''))) = STARTED \<and>
   state (snd (start_instance
      (run [Worker_start_instance (Some ()), Get_started_kind] (init (KStr ''a'') True))
      (PyFailure ''boom''))) \<noteq> STOPPED \<and>
   started_kind (snd (start_instance
      (run [Worker_start_instance (Some ()), Get_started_kind] (init (KStr ''a'') True))
      (PyFailure ''boom''))) = Some ''a'' \<and>
   started_kind (snd (start_instance
      (run [Worker_start_instance (Some ()), Get_started_kind] (init (KStr ''a'') True))
      (PyFailure ''boom''))) \<noteq> None \<and>
   deferreds (snd (start_instance
      (run [Worker_start_instance (Some ()), Get_started_kind] (init (KStr ''a'') True))
      (PyFailure ''boom''))) 0 = Some (PyFailure ''boom'')"
  by (simp add: init_def run_def ops)

text \<open>
  Claim C2, as amended. The claim has a start that resolves with a failure return the
  worker to STOPPED and clear the kind. The controller does neither: resolving a start,
  whatever the result, assigns STARTED and leaves the stored kind and the slot of the
  pending kind as they are (it is the worker's \<^verbatim>\<open>stop_instance\<close> that asserts
  STARTED afterwards). What holds: for every start that resolves while the worker is
  STARTING, the state becomes STARTED and the stored kind is unchanged; when the result is
  a failure (anything but \<^verbatim>\<open>True\<close>) and an unfired Deferred is in
  \<open>start_deferred\<close>, the call returns and that Deferred, the one the caller of the
  worker's \<^verbatim>\<open>start_instance\<close> waits on, is fired with the result; and every
  STARTING controller reached from \<open>init\<close> has such a Deferred.
\<close>

theorem failed_start_leaves_STARTED:
  "(state c = STARTING \<longrightarrow>
      state (snd (start_instance c r)) = STARTED \<and>
      started_kind (snd (start_instance c r)) = started_kind c \<and>
      started_kind_deferred (snd (start_instance c r)) = started_kind_deferred c) \<and>
   (state c = STARTING \<and> r \<noteq> PyBool True \<and> start_deferred c = Some d \<and>
    deferreds c d = None \<longrightarrow>
      fst (start_instance c r) = Inr () \<and>
      deferreds (snd (start_instance c r)) d = Some r \<and>
      start_deferred (snd (start_instance c r)) = None) \<and>
   (state (run ks (init kd inst)) = STARTING \<and> r \<noteq> PyBool True \<longrightarrow>
      (\<exists>w. start_deferred (run ks (init kd inst)) = Some w \<and>
           fst (start_instance (run ks (init kd inst)) r) = Inr () \<and>
           deferreds (snd (start_instance (run ks (init kd inst)) r)) w = Some r))"
proof (intro conjI impI)
  assume "state c = STARTING"
  then show "state (snd (start_instance c r)) = STARTED"
    and "started_kind (snd (start_instance c r)) = started_kind c"
    and "started_kind_deferred (snd (start_instance c r)) = started_kind_deferred c"
    using start_instance_state [of c r] by simp_all
next
  assume a: "state c = STARTING \<and> r \<noteq> PyBool True \<and> start_deferred c = Some d \<and>
    deferreds c d = None"
  then show "fst (start_instance c r) = Inr ()"
    and "deferreds (snd (start_instance c r)) d = Some r"
    and "start_deferred (snd (start_instance c r)) = None"
    using start_instance_delivers [of c r d] by simp_all
next
  let ?c = "run ks (init kd inst)"
  assume a: "state ?c = STARTING \<and> r \<noteq> PyBool True"
  then obtain w where w: "start_deferred ?c = Some w" "deferreds ?c w = None"
    using waiting_start [OF reachable_waiters_ok, of ks kd inst] by auto
  with a show "\<exists>w. start_deferred ?c = Some w \<and> fst (start_instance ?c r) = Inr () \<and>
      deferreds (snd (start_instance ?c r)) w = Some r"
    using start_instance_delivers [of ?c r w] by auto
qed


theorem failed_start_leaves_STARTED_witness:
  "state (run [Worker_start_instance (Some ())] (init (KStr ''a'') True)) = STARTING \<and>
   PyFailure ''boom'' \<noteq> PyBool True \<and>
   start_deferred (run [Worker_start_instance (Some ())] (init (KStr ''a'') True)) = Some 0 \<and>
   deferreds (run [Worker_start_instance (Some ())] (init (KStr ''a'') True)) 0 = None \<and>
   state (snd (start_instance (run [Worker_start_instance (Some ())] (init (KStr ''a'') True))
                 (PyFailure ''boom''))) = STARTED \<and>
   fst (start_instance (run [Worker_start_instance (Some ())] (init (KStr ''a'') True))
          (PyFailure ''boom'')) = Inr () \<and>
   deferreds (snd (start_instance (run [Worker_start_instance (Some ())] (init (KStr ''a'') True))
                     (PyFailure ''boom''))) 0 = Some (PyFailure ''boom'')"
proof -
  let ?c = "run [Worker_start_instance (Some ())] (init (KStr ''a'') True) :: unit controller"
  have h: "state ?c = STARTING" "PyFailure ''boom'' \<noteq> PyBool True"
    "start_deferred ?c = Some 0" "deferreds ?c 0 = None"
    by (simp_all add: init_def run_def ops)
  note t = failed_start_leaves_STARTED
    [of ?c "PyFailure ''boom''" 0 "[Worker_start_instance (Some ())]" "KStr ''a''" True]
  from t h have "state (snd (start_instance ?c (PyFailure ''boom''))) = STARTED"
    by blast
  moreover from t h have "fst (start_instance ?c (PyFailure ''boom'')) = Inr () \<and>
      deferreds (snd (start_instance ?c (PyFailure ''boom''))) 0 = Some (PyFailure ''boom'')"
    by blast
  ultimately show ?thesis using h by blast
qed








subsection \<open>Compatibility of a build with the started worker\<close>

lemma started_with_build:
  "state c = STOPPED \<Longrightarrow>
   state (snd (worker_start_instance c (Some b0))) \<noteq> STOPPED \<and>
   kind (snd (worker_start_instance c (Some b0))) = kind c \<and>
   kind_available (snd (worker_start_instance c (Some b0))) \<and>
   current_kind (snd (worker_start_instance c (Some b0))) = render b0 (kind c)"
  by (auto simp: ops kind_available_def current_kind_def split: splits)

text \<open>
  Where the method follows the rule of the specification: it answers \<^verbatim>\<open>True\<close> for
  every build, and changes nothing, when the state is STOPPED; when the state is STARTING
  or STARTED and the current kind is available it answers whether the requested kind, the
  configured kind rendered for the requesting build, equals the current kind,
  \<^verbatim>\<open>None\<close> equal to \<^verbatim>\<open>None\<close> included. For a worker just started for a build
  \<open>b0\<close> that is whether both builds render the configured kind alike.
\<close>

lemma isCompatibleWithBuild_answers:
  "(state c = STOPPED \<longrightarrow> isCompatibleWithBuild c b = (Inr True, c)) \<and>
   ((state c = STARTING \<or> state c = STARTED) \<and> kind_available c \<longrightarrow>
      fst (isCompatibleWithBuild c b) = Inr (render b (kind c) = current_kind c)) \<and>
   (state c = STOPPED \<longrightarrow>
      fst (isCompatibleWithBuild (snd (worker_start_instance c (Some b0))) b) =
        Inr (render b (kind c) = render b0 (kind c)))"
proof (intro conjI impI)
  assume "state c = STOPPED"
  then show "isCompatibleWithBuild c b = (Inr True, c)"
    by (simp add: isCompatibleWithBuild_def)
next
  assume "(state c = STARTING \<or> state c = STARTED) \<and> kind_available c"
  then have "state c \<noteq> STOPPED" and "kind_available c" by auto
  then show "fst (isCompatibleWithBuild c b) = Inr (render b (kind c) = current_kind c)"
    by (rule isCompatible_compares)
next
  assume "state c = STOPPED"
  then show "fst (isCompatibleWithBuild (snd (worker_start_instance c (Some b0))) b) =
        Inr (render b (kind c) = render b0 (kind c))"
    using started_with_build [of c b0]
      isCompatible_compares [of "snd (worker_start_instance c (Some b0))" b]
    by simp
qed

lemma isCompatibleWithBuild_answers_example:
  "state (init (KRenderable id) True) = STOPPED \<and>
   isCompatibleWithBuild (init (KRenderable id) True) (Some ''b'') =
     (Inr True, init (KRenderable id) True) \<and>
   fst (isCompatibleWithBuild
          (snd (worker_start_instance (init (KRenderable id) True) (Some (Some ''a''))))
          (Some ''a'')) = Inr True \<and>
   fst (isCompatibleWithBuild
          (snd (worker_start_instance (init (KRenderable id) True) (Some (Some ''a''))))
          (Some ''b'')) = Inr False \<and>
   fst (isCompatibleWithBuild
          (snd (worker_start_instance (init (KRenderable id) True) (Some None)))
          None) = Inr True"
proof -
  let ?c = "init (KRenderable id) True :: string option controller"
  have h: "state ?c = STOPPED"
    by (simp add: init_def)
  have k: "kind ?c = KRenderable id"
    by (simp add: init_def)
  from h isCompatibleWithBuild_answers [of ?c "Some ''b''" "Some ''a''"]
  have 1: "isCompatibleWithBuild ?c (Some ''b'') = (Inr True, ?c)"
    and 2: "fst (isCompatibleWithBuild (snd (worker_start_instance ?c (Some (Some ''a''))))
          (Some ''b'')) = Inr False"
    by (simp_all add: k)
  from h isCompatibleWithBuild_answers [of ?c "Some ''a''" "Some ''a''"]
  have 3: "fst (isCompatibleWithBuild (snd (worker_start_instance ?c (Some (Some ''a''))))
          (Some ''a'')) = Inr True"
    by (simp add: k)
  from h isCompatibleWithBuild_answers [of ?c None None]
  have 4: "fst (isCompatibleWithBuild (snd (worker_start_instance ?c (Some None))) None) = Inr True"
    by (simp add: k)
  from h 1 2 3 4 show ?thesis by (intro conjI)
qed

lemma isCompatibleWithBuild_not_awaitable:
  "state c \<noteq> STOPPED \<Longrightarrow> \<not> kind_available c \<Longrightarrow>
   isCompatibleWithBuild c b = (Inl TypeError, c)"
  by (cases "started_kind_deferred c")
     (auto simp: isCompatibleWithBuild_def get_started_kind_def kind_available_def
        split: if_splits)

text \<open>
  Claim C4. The claim has \<^verbatim>\<open>isCompatibleWithBuild\<close> answer, while the worker is
  STARTING or STARTED, whether the requested kind equals the current kind. A worker
  configured with kind \<open>a\<close> and started without a build is a case where it does not
  answer: \<^verbatim>\<open>setup_kind\<close> puts the configured kind itself in the slot where the
  other branch puts a Deferred, and \<^verbatim>\<open>get_started_kind\<close> awaits it. While the
  worker is STARTING, and again once it is STARTED, the call raises
  \<^verbatim>\<open>TypeError\<close> and answers neither \<^verbatim>\<open>True\<close> nor \<^verbatim>\<open>False\<close>, though the
  requested kind is \<open>a\<close>.
\<close>

theorem isCompatibleWithBuild_raises_after_start_without_build:
  "state (run [Worker_start_instance None] (init (KStr ''a'') True)) = STARTING \<and>
   render () (kind (run [Worker_start_instance None] (init (KStr ''a'') True))) = Some ''a'' \<and>
   started_kind_deferred (run [Worker_start_instance None] (init (KStr ''a'') True)) =
     Raw (KStr ''a'') \<and>
   fst (isCompatibleWithBuild
          (run [Worker_start_instance None] (init (KStr ''a'') True)) ()) = Inl TypeError \<and>
   state (run [Worker_start_instance None, Start_instance (PyBool True)]
            (init (KStr ''a'') True)) = STARTED \<and>
   fst (isCompatibleWithBuild
          (run [Worker_start_instance None, Start_instance (PyBool True)]
             (init (KStr ''a'') True)) ()) = Inl TypeError"
  by (simp add: init_def run_def ops)

lemma stopping_keeps_fields:
  "state c = STARTED \<Longrightarrow> \<not> auto_stop_flag c \<Longrightarrow>
   state (snd (worker_stop_instance c fast)) = STOPPING \<and>
   kind (snd (worker_stop_instance c fast)) = kind c \<and>
   started_kind (snd (worker_stop_instance c fast)) = started_kind c \<and>
   started_kind_deferred (snd (worker_stop_instance c fast)) = started_kind_deferred c"
  by (simp add: ops split: prod.splits)

lemma stopping_keeps_kind:
  "state c = STARTED \<Longrightarrow> \<not> auto_stop_flag c \<Longrightarrow>
   state (snd (worker_stop_instance c fast)) = STOPPING \<and>
   kind (snd (worker_stop_instance c fast)) = kind c \<and>
   kind_available (snd (worker_stop_instance c fast)) = kind_available c \<and>
   current_kind (snd (worker_stop_instance c fast)) = current_kind c"
  using stopping_keeps_fields [of c fast]
  by (simp add: kind_available_def current_kind_def split: slot.splits)

text \<open>
  A worker started with kind \<open>a\<close> and now STOPPING, asked for a build of kind \<open>a\<close>:
  the answer is \<^verbatim>\<open>True\<close>.
\<close>

theorem compatible_while_STOPPING_counterexample:
  "state (run [Worker_start_instance (Some ()), Start_instance (PyBool True),
               Worker_stop_instance False] (init (KStr ''a'') True)) = STOPPING \<and>
   render () (kind (run [Worker_start_instance (Some ()), Start_instance (PyBool True),
               Worker_stop_instance False] (init (KStr ''a'') True))) = Some ''a'' \<and>
   fst (isCompatibleWithBuild
          (run [Worker_start_instance (Some ()), Start_instance (PyBool True),
                Worker_stop_instance False] (init (KStr ''a'') True)) ()) = Inr True \<and>
   fst (isCompatibleWithBuild
          (run [Worker_start_instance (Some ()), Start_instance (PyBool True),
                Worker_stop_instance False] (init (KStr ''a'') True)) ()) \<noteq> Inr False"
  by (simp add: init_def run_def ops)

text \<open>
  Claim C5, as amended. The claim has every request refused while the worker is STOPPING.
  The method tests for STOPPED only, and the kind is kept until the stop resolves, so
  STOPPING is treated as STARTING and STARTED are: while the worker is STOPPING and its
  current kind is available (it was started for a build, or nothing true is left in the
  slot) \<^verbatim>\<open>isCompatibleWithBuild\<close> answers whether the requested kind equals the
  current kind, and the worker's \<^verbatim>\<open>stop_instance\<close> leaves the current kind as it
  was, so a request for the kind that was started is judged compatible. A STOPPING
  worker whose current kind is not available is the case of the claim on STARTING and
  STARTED: the call raises \<^verbatim>\<open>TypeError\<close>.
\<close>

theorem isCompatibleWithBuild_while_STOPPING:
  "(state c = STOPPING \<and> kind_available c \<longrightarrow>
      fst (isCompatibleWithBuild c b) = Inr (render b (kind c) = current_kind c)) \<and>
   (state c = STARTED \<and> \<not> auto_stop_flag c \<and> kind_available c \<longrightarrow>
      state (snd (worker_stop_instance c fast)) = STOPPING \<and>
      fst (isCompatibleWithBuild (snd (worker_stop_instance c fast)) b) =
        Inr (render b (kind c) = current_kind c)) \<and>
   (state c = STOPPING \<and> \<not> kind_available c \<longrightarrow>
      isCompatibleWithBuild c b = (Inl TypeError, c))"
proof (intro conjI impI)
  assume "state c = STOPPING \<and> \<not> kind_available c"
  then have "state c \<noteq> STOPPED" and "\<not> kind_available c" by auto
  then show "isCompatibleWithBuild c b = (Inl TypeError, c)"
    by (rule isCompatibleWithBuild_not_awaitable)
next
  assume "state c = STOPPING \<and> kind_available c"
  then have "state c \<noteq> STOPPED" and "kind_available c" by auto
  then show "fst (isCompatibleWithBuild c b) = Inr (render b (kind c) = current_kind c)"
    by (rule isCompatible_compares)
next
  assume a: "state c = STARTED \<and> \<not> auto_stop_flag c \<and> kind_available c"
  then show "state (snd (worker_stop_instance c fast)) = STOPPING"
    using stopping_keeps_kind [of c fast] by simp
  from a show "fst (isCompatibleWithBuild (snd (worker_stop_instance c fast)) b) =
        Inr (render b (kind c) = current_kind c)"
    using stopping_keeps_kind [of c fast]
      isCompatible_compares [of "snd (worker_stop_instance c fast)" b]
    by simp
qed

theorem isCompatibleWithBuild_while_STOPPING_witness:
  "state (run [Worker_start_instance (Some ()), Start_instance (PyBool True),
               Worker_stop_instance False] (init (KStr ''a'') True)) = STOPPING \<and>
   kind_available (run [Worker_start_instance (Some ()), Start_instance (PyBool True),
               Worker_stop_instance False] (init (KStr ''a'') True)) \<and>
   current_kind (run [Worker_start_instance (Some ()), Start_instance (PyBool True),
               Worker_stop_instance False] (init (KStr ''a'') True)) = Some ''a'' \<and>
   fst (isCompatibleWithBuild
          (run [Worker_start_instance (Some ()), Start_instance (PyBool True),
                Worker_stop_instance False] (init (KStr ''a'') True)) ()) = Inr True"
proof -
  let ?c = "run [Worker_start_instance (Some ()), Start_instance (PyBool True),
               Worker_stop_instance False] (init (KStr ''a'') True) :: unit controller"
  have h: "state ?c = STOPPING" "kind_available ?c" "current_kind ?c = Some ''a''"
    "kind ?c = KStr ''a''"
    by (simp_all add: init_def run_def ops kind_available_def current_kind_def)
  from h isCompatibleWithBuild_while_STOPPING
    [of ?c "()"]
  have "fst (isCompatibleWithBuild ?c ()) = Inr True"
    by simp
  with h show ?thesis by (intro conjI)
qed

text \<open>
  A worker started with kind \<open>a\<close>, asked for a build whose kind renders to
  \<^verbatim>\<open>None\<close>: the answer is \<^verbatim>\<open>False\<close>.
\<close>

theorem absent_request_incompatible_counterexample:
  "state (run [Worker_start_instance (Some (Some ''a'')), Start_instance (PyBool True)]
            (init (KRenderable id) True)) = STARTED \<and>
   current_kind (run [Worker_start_instance (Some (Some ''a'')), Start_instance (PyBool True)]
            (init (KRenderable id) True)) = Some ''a'' \<and>
   render None (kind (run [Worker_start_instance (Some (Some ''a'')), Start_instance (PyBool True)]
            (init (KRenderable id) True))) = None \<and>
   fst (isCompatibleWithBuild
          (run [Worker_start_instance (Some (Some ''a'')), Start_instance (PyBool True)]
             (init (KRenderable id) True)) None) = Inr False"
  by (simp add: init_def run_def ops current_kind_def)

text \<open>
  Claim C6, as amended. The claim has a request without a kind compatible with every
  started worker. The method compares with \<^verbatim>\<open>==\<close> and gives \<^verbatim>\<open>None\<close> no
  special place: a request whose kind is \<^verbatim>\<open>None\<close>, made while the worker is
  STARTED and its current kind is available (it was started for a build, or nothing true
  is left in the slot), is judged compatible exactly when the current kind is
  \<^verbatim>\<open>None\<close> as well. A STARTED worker whose current kind is not available is
  the case of the claim on STARTING and STARTED: the call raises \<^verbatim>\<open>TypeError\<close>.
\<close>

theorem absent_request_compatible_iff_absent_kind:
  "(state c = STARTED \<and> kind_available c \<and> render b (kind c) = None \<longrightarrow>
      fst (isCompatibleWithBuild c b) = Inr (current_kind c = None)) \<and>
   (state c = STARTED \<and> \<not> kind_available c \<longrightarrow>
      isCompatibleWithBuild c b = (Inl TypeError, c))"
proof (intro conjI impI)
  assume "state c = STARTED \<and> \<not> kind_available c"
  then have "state c \<noteq> STOPPED" and "\<not> kind_available c" by auto
  then show "isCompatibleWithBuild c b = (Inl TypeError, c)"
    by (rule isCompatibleWithBuild_not_awaitable)
next
  assume a: "state c = STARTED \<and> kind_available c \<and> render b (kind c) = None"
  then have "state c \<noteq> STOPPED" and "kind_available c" by auto
  then have "fst (isCompatibleWithBuild c b) = Inr (render b (kind c) = current_kind c)"
    by (rule isCompatible_compares)
  with a show "fst (isCompatibleWithBuild c b) = Inr (current_kind c = None)"
    by (simp add: eq_commute)
qed

theorem absent_request_compatible_iff_absent_kind_witness:
  "state (run [Worker_start_instance (Some None), Start_instance (PyBool True)]
            (init (KRenderable id) True)) = STARTED \<and>
   kind_available (run [Worker_start_instance (Some None), Start_instance (PyBool True)]
            (init (KRenderable id) True)) \<and>
   render None (kind (run [Worker_start_instance (Some None), Start_instance (PyBool True)]
            (init (KRenderable id) True))) = None \<and>
   current_kind (run [Worker_start_instance (Some None), Start_instance (PyBool True)]
            (init (KRenderable id) True)) = None \<and>
   fst (isCompatibleWithBuild
          (run [Worker_start_instance (Some None), Start_instance (PyBool True)]
             (init (KRenderable id) True)) None) = Inr True"
proof -
  let ?c = "run [Worker_start_instance (Some None), Start_instance (PyBool True)]
            (init (KRenderable id) True) :: string option controller"
  have h: "state ?c = STARTED" "kind_available ?c" "render None (kind ?c) = None"
    "current_kind ?c = None"
    by (simp_all add: init_def run_def ops kind_available_def current_kind_def)
  from h absent_request_compatible_iff_absent_kind
    [of ?c None]
  have "fst (isCompatibleWithBuild ?c None) = Inr True"
    by simp
  with h show ?thesis by (intro conjI)
qed

subsection \<open>When the stored kind changes\<close>

lemma into_STOPPED_clears:
  "STOPPED \<in> snd ` set (performed k c) \<Longrightarrow> started_kind (exec k c) = None"
  by (cases k) (auto simp: performed_def ops split: splits)

lemma not_into_STOPPED_keeps:
  "STOPPED \<notin> snd ` set (performed k c) \<Longrightarrow> \<not> evaluates_kind k \<Longrightarrow>
   started_kind (exec k c) = started_kind c"
  by (cases k) (auto simp: performed_def ops split: splits)

lemma outside_STOPPED_no_entry:
  "state (exec k c) \<noteq> STOPPED \<Longrightarrow> STOPPED \<notin> snd ` set (performed k c)"
  by (cases k) (auto simp: performed_def ops split: splits)

lemma evaluation_stores:
  "evaluates_kind k \<Longrightarrow>
   performed k c = [] \<and> state (exec k c) = state c \<and>
   (started_kind (exec k c) = started_kind c \<or> started_kind (exec k c) = current_kind c)"
  by (cases k; cases "started_kind_deferred c")
     (auto simp: performed_def ops current_kind_def split: splits)

text \<open>
  A worker is started with kind \<open>a\<close> and stopped without its kind having been read;
  the kind is read once the worker is STOPPED, which stores \<open>a\<close>; the worker is started
  again for a build whose kind renders to \<^verbatim>\<open>None\<close>. The worker is STARTING and
  the stored kind is \<open>a\<close>; \<^verbatim>\<open>get_started_kind\<close> leaves the state STARTING and
  the stored kind \<^verbatim>\<open>None\<close>.
\<close>

theorem stored_kind_cleared_while_STARTING_counterexample:
  "state (run [Worker_start_instance (Some (Some ''a'')), Start_instance (PyBool True),
               Worker_stop_instance False, Stop_instance (PyBool True), Get_started_kind,
               Worker_start_instance (Some None)] (init (KRenderable id) True)) = STARTING \<and>
   started_kind (run [Worker_start_instance (Some (Some ''a'')), Start_instance (PyBool True),
               Worker_stop_instance False, Stop_instance (PyBool True), Get_started_kind,
               Worker_start_instance (Some None)] (init (KRenderable id) True)) = Some ''a'' \<and>
   state (exec Get_started_kind
           (run [Worker_start_instance (Some (Some ''a'')), Start_instance (PyBool True),
               Worker_stop_instance False, Stop_instance (PyBool True), Get_started_kind,
               Worker_start_instance (Some None)] (init (KRenderable id) True))) = STARTING \<and>
   started_kind (exec Get_started_kind
           (run [Worker_start_instance (Some (Some ''a'')), Start_instance (PyBool True),
               Worker_stop_instance False, Stop_instance (PyBool True), Get_started_kind,
               Worker_start_instance (Some None)] (init (KRenderable id) True))) = None"
  by (simp add: init_def run_def ops)

text \<open>
  Claim C7, as amended. The claim has no call but a transition into STOPPED clear the
  stored kind. \<^verbatim>\<open>get_started_kind\<close> stores what the pending kind computation
  yields over the kind stored before, and it may yield \<^verbatim>\<open>None\<close>. What holds:
  every call that assigns STOPPED to the state leaves the stored kind \<^verbatim>\<open>None\<close>; a
  call that leaves the state outside STOPPED has not assigned STOPPED; and a call that has
  not assigned STOPPED leaves the stored kind as it was, except
  \<^verbatim>\<open>get_started_kind\<close> (also when \<^verbatim>\<open>isCompatibleWithBuild\<close> calls it), which
  assigns no state and leaves the stored kind as it was or replaces it by the current
  kind, the value of the pending computation.
\<close>

theorem stored_kind_cleared_on_STOPPED:
  "(STOPPED \<in> snd ` set (performed k c) \<longrightarrow> started_kind (exec k c) = None) \<and>
   (state (exec k c) \<noteq> STOPPED \<longrightarrow> STOPPED \<notin> snd ` set (performed k c)) \<and>
   (STOPPED \<notin> snd ` set (performed k c) \<and> \<not> evaluates_kind k \<longrightarrow>
      started_kind (exec k c) = started_kind c) \<and>
   (evaluates_kind k \<longrightarrow>
      performed k c = [] \<and> state (exec k c) = state c \<and>
      (started_kind (exec k c) = started_kind c \<or>
       started_kind (exec k c) = current_kind c))"
  using into_STOPPED_clears [of k c] outside_STOPPED_no_entry [of k c]
    not_into_STOPPED_keeps [of k c] evaluation_stores [of k c]
  by blast

theorem stored_kind_cleared_on_STOPPED_witness:
  "performed (Stop_instance (PyBool False))
     (run [Worker_start_instance (Some ()), Get_started_kind, Start_instance (PyBool True),
           Worker_stop_instance False] (init (KStr ''a'') True)) = [(STOPPING, STOPPED)] \<and>
   started_kind
     (run [Worker_start_instance (Some ()), Get_started_kind, Start_instance (PyBool True),
           Worker_stop_instance False] (init (KStr ''a'') True)) = Some ''a'' \<and>
   started_kind (exec (Stop_instance (PyBool False))
     (run [Worker_start_instance (Some ()), Get_started_kind, Start_instance (PyBool True),
           Worker_stop_instance False] (init (KStr ''a'') True))) = None \<and>
   state (exec (Worker_stop_instance False)
     (run [Worker_start_instance (Some ()), Get_started_kind, Start_instance (PyBool True)]
        (init (KStr ''a'') True))) = STOPPING \<and>
   started_kind (exec (Worker_stop_instance False)
     (run [Worker_start_instance (Some ()), Get_started_kind, Start_instance (PyBool True)]
        (init (KStr ''a'') True))) = Some ''a''"
proof -
  let ?c3 = "run [Worker_start_instance (Some ()), Get_started_kind,
                  Start_instance (PyBool True)] (init (KStr ''a'') True) :: unit controller"
  let ?c4 = "run [Worker_start_instance (Some ()), Get_started_kind,
                  Start_instance (PyBool True), Worker_stop_instance False]
               (init (KStr ''a'') True) :: unit controller"
  have p: "performed (Stop_instance (PyBool False)) ?c4 = [(STOPPING, STOPPED)]"
    and k4: "started_kind ?c4 = Some ''a''"
    and s: "state (exec (Worker_stop_instance False) ?c3) = STOPPING"
    and k3: "started_kind ?c3 = Some ''a''"
    by (simp_all add: performed_def init_def run_def ops)
  from p have "STOPPED \<in> snd ` set (performed (Stop_instance (PyBool False)) ?c4)"
    by simp
  with stored_kind_cleared_on_STOPPED [of "Stop_instance (PyBool False)" ?c4]
  have 1: "started_kind (exec (Stop_instance (PyBool False)) ?c4) = None"
    by blast
  from s have "state (exec (Worker_stop_instance False) ?c3) \<noteq> STOPPED"
    by simp
  with stored_kind_cleared_on_STOPPED [of "Worker_stop_instance False" ?c3]
  have "started_kind (exec (Worker_stop_instance False) ?c3) = started_kind ?c3"
    by simp
  with k3 have 2: "started_kind (exec (Worker_stop_instance False) ?c3) = Some ''a''"
    by simp
  from p k4 1 s 2 show ?thesis by (intro conjI)
qed

subsection \<open>Reading the started kind\<close>

lemma get_started_kind_again:
  "get_started_kind c = (Inr v, c') \<Longrightarrow>
   get_started_kind c' = (Inr v, c') \<and> \<not> truthy (started_kind_deferred c')"
  by (cases "started_kind_deferred c")
     (auto simp: get_started_kind_def split: if_splits)

lemma get_started_kind_fixed:
  "get_started_kind c' = (Inr v, c') \<Longrightarrow> (exec Get_started_kind ^^ n) c' = c'"
  by (induction n) auto

text \<open>
  Claim C8. After \<^verbatim>\<open>setup_kind\<close> has recorded the rendering of the kind for a build,
  the first \<^verbatim>\<open>get_started_kind\<close> returns the rendered kind, stores it and empties
  the slot. Whenever a call of \<^verbatim>\<open>get_started_kind\<close> returns, nothing true is left
  in the slot, so the next call evaluates nothing: it returns the same kind and changes
  no field, and so does every call after it, however many there are.
\<close>

theorem get_started_kind_evaluates_once:
  "get_started_kind (setup_kind c (Some b)) =
     (Inr (render b (kind c)),
      (setup_kind c (Some b))\<lparr>started_kind := render b (kind c),
                               started_kind_deferred := Raw KNone\<rparr>) \<and>
   (get_started_kind c = (Inr v, c') \<longrightarrow>
      \<not> truthy (started_kind_deferred c') \<and>
      get_started_kind c' = (Inr v, c') \<and>
      (exec Get_started_kind ^^ n) c' = c')"
proof (intro conjI impI)
  show "get_started_kind (setup_kind c (Some b)) =
     (Inr (render b (kind c)),
      (setup_kind c (Some b))\<lparr>started_kind := render b (kind c),
                               started_kind_deferred := Raw KNone\<rparr>)"
    by (simp add: get_started_kind_def setup_kind_def)
next
  assume a: "get_started_kind c = (Inr v, c')"
  then show "\<not> truthy (started_kind_deferred c')" and again: "get_started_kind c' = (Inr v, c')"
    using get_started_kind_again [of c v c'] by simp_all
  from again show "(exec Get_started_kind ^^ n) c' = c'"
    by (rule get_started_kind_fixed)
qed

theorem get_started_kind_evaluates_once_witness:
  "get_started_kind (setup_kind (init (KStr ''a'') True :: unit controller) (Some ())) =
     (Inr (Some ''a''),
      (init (KStr ''a'') True :: unit controller)\<lparr>started_kind := Some ''a''\<rparr>) \<and>
   get_started_kind ((init (KStr ''a'') True :: unit controller)\<lparr>started_kind := Some ''a''\<rparr>) =
     (Inr (Some ''a''), (init (KStr ''a'') True :: unit controller)\<lparr>started_kind := Some ''a''\<rparr>) \<and>
   (exec Get_started_kind ^^ 3) ((init (KStr ''a'') True :: unit controller)\<lparr>started_kind := Some ''a''\<rparr>) =
     (init (KStr ''a'') True :: unit controller)\<lparr>started_kind := Some ''a''\<rparr>"
proof -
  let ?c = "setup_kind (init (KStr ''a'') True) (Some ()) :: unit controller"
  let ?c' = "(init (KStr ''a'') True)\<lparr>started_kind := Some ''a''\<rparr> :: unit controller"
  have first: "get_started_kind ?c = (Inr (Some ''a''), ?c')"
    by (simp add: get_started_kind_def setup_kind_def init_def)
  with get_started_kind_evaluates_once [of ?c "()" "Some ''a''" ?c' 3]
  have "get_started_kind ?c' = (Inr (Some ''a''), ?c') \<and> (exec Get_started_kind ^^ 3) ?c' = ?c'"
    by blast
  with first show ?thesis by blast
qed

subsection \<open>Connecting the remote worker, and the health check\<close>

text \<open>
  Claim C9. With a remote worker attached, \<^verbatim>\<open>connect_worker\<close> returns at once
  and the controller is the one it was given: no directory is made, no session created or
  attached. So a call of \<^verbatim>\<open>connect_worker\<close> that follows one that returned
  changes nothing.
\<close>

theorem connect_worker_idempotent:
  "(remote_worker c \<noteq> None \<longrightarrow> connect_worker c = (Inr (), c)) \<and>
   (fst (connect_worker c) = Inr () \<longrightarrow>
      connect_worker (snd (connect_worker c)) = (Inr (), snd (connect_worker c)))"
  by (auto simp: connect_worker_def)

theorem connect_worker_idempotent_witness:
  "connect_worker (init KNone True :: unit controller) =
     (Inr (), (init KNone True :: unit controller)\<lparr>case_mktemp := 1, remote_worker := Some 0\<rparr>) \<and>
   remote_worker ((init KNone True :: unit controller)\<lparr>case_mktemp := 1, remote_worker := Some 0\<rparr>) \<noteq> None \<and>
   connect_worker ((init KNone True :: unit controller)\<lparr>case_mktemp := 1, remote_worker := Some 0\<rparr>) =
     (Inr (), (init KNone True :: unit controller)\<lparr>case_mktemp := 1, remote_worker := Some 0\<rparr>)"
proof -
  let ?c = "(init KNone True)\<lparr>case_mktemp := 1, remote_worker := Some 0\<rparr> :: unit controller"
  have first: "connect_worker (init KNone True :: unit controller) = (Inr (), ?c)"
    by (simp add: connect_worker_def init_def)
  have attached: "remote_worker ?c \<noteq> None"
    by simp
  with connect_worker_idempotent [of ?c] have "connect_worker ?c = (Inr (), ?c)"
    by blast
  with first attached show ?thesis by (intro conjI)
qed

text \<open>
  Claim C10. \<^verbatim>\<open>check_instance\<close> answers healthy exactly when \<open>has_crashed\<close> is
  false, whatever the state and whatever the other fields; the reason beside the answer
  is the empty string, also when the answer is unhealthy; and the call changes nothing.
\<close>

theorem check_instance_reports_crash_flag:
  "fst (check_instance c) = (\<not> has_crashed c) \<and>
   snd (check_instance c) = [] \<and>
   check_instance (c\<lparr>state := s\<rparr>) = check_instance c \<and>
   exec Check_instance c = c"
  by (simp add: check_instance_def)

end
